theory Spec2Isabelle
  imports Complex_Main "HOL-Library.Word"
begin

section \<open>The model\<close>

subsection \<open>Data model of the frontend (\<open>frontend/src/types.ts\<close>)\<close>

text \<open>
  \<open>SourceType\<close> is the union \<open>'spotify' | 'analog' | 'unknown'\<close>. Each constructor stands
  for one string literal of the union; \<open>SourceType_str\<close> gives the literal.
\<close>

datatype SourceType = S_spotify | S_analog | S_unknown

fun SourceType_str :: "SourceType \<Rightarrow> string" where
  "SourceType_str S_spotify = ''spotify''"
| "SourceType_str S_analog = ''analog''"
| "SourceType_str S_unknown = ''unknown''"

text \<open>
  \<open>TrackInfo\<close>: an optional field (\<open>album_art_url?\<close>) is an \<open>option\<close>. The field \<open>id\<close> is
  named \<open>track_id\<close>, since \<open>id\<close> is the identity function of HOL. The numbers of the wire
  protocol are integers.
\<close>

record TrackInfo =
  track_id :: string
  title :: string
  artist :: string
  album :: string
  album_art_url :: "string option"
  album_art_colors :: "string list option"
  duration_ms :: int
  progress_ms :: int
  is_playing :: bool
  source :: SourceType
  release_year :: "int option"
  genre :: "string list option"
  lyrics :: "string option"
  artist_image_url :: "string option"
  artist_bio :: "string option"

text \<open>
  \<open>DisplayMode\<close> is the union
  \<open>'album_art' | 'lyrics' | 'artist_info' | 'visualizer' | 'minimal'\<close>.
\<close>

datatype DisplayMode = M_album_art | M_lyrics | M_artist_info | M_visualizer | M_minimal

fun DisplayMode_str :: "DisplayMode \<Rightarrow> string" where
  "DisplayMode_str M_album_art = ''album_art''"
| "DisplayMode_str M_lyrics = ''lyrics''"
| "DisplayMode_str M_artist_info = ''artist_info''"
| "DisplayMode_str M_visualizer = ''visualizer''"
| "DisplayMode_str M_minimal = ''minimal''"

text \<open>
  \<open>DisplayState\<close> and \<open>WSMessage\<close>. Their fields carry the prefixes \<open>ds_\<close> and \<open>msg_\<close>,
  since a field name is a constant of the theory and \<open>track\<close>, \<open>mode\<close>, \<open>progress_ms\<close> and
  \<open>is_playing\<close> occur in several interfaces.
\<close>

record DisplayState =
  ds_mode :: DisplayMode
  ds_brightness :: int
  ds_track :: "TrackInfo option"

datatype MsgType = T_init | T_track_update | T_progress_update | T_mode_change

record WSMessage =
  msg_type :: MsgType
  msg_track :: "TrackInfo option"
  msg_state :: "DisplayState option"
  msg_progress_ms :: "int option"
  msg_is_playing :: "bool option"
  msg_mode :: "DisplayMode option"

subsection \<open>The WebSocket hook (\<open>frontend/src/hooks/useWebSocket.ts\<close>)\<close>

text \<open>
  The state of the hook: the three \<open>useState\<close> cells \<open>isConnected\<close>, \<open>track\<close> (initially
  \<open>null\<close>) and \<open>mode\<close> (initially \<open>'album_art'\<close>).
\<close>

record ws_state =
  isConnected :: bool
  track :: "TrackInfo option"
  mode :: DisplayMode

definition initial_state :: ws_state where
  "initial_state = \<lparr>isConnected = False, track = None, mode = M_album_art\<rparr>"

text \<open>
  \<open>a ?? b\<close>: the left operand unless it is \<open>null\<close> or \<open>undefined\<close>.
\<close>

definition nullish :: "'a option \<Rightarrow> 'a \<Rightarrow> 'a" where
  "nullish a b = (case a of Some v \<Rightarrow> v | None \<Rightarrow> b)"

text \<open>
  \<open>ws.current.onmessage\<close>, on a message that \<open>JSON.parse\<close> has accepted: the \<open>switch\<close> on
  \<open>message.type\<close>. \<open>if (message.track)\<close> tests that the track is neither \<open>null\<close> nor
  \<open>undefined\<close>; \<open>if (message.state?.mode)\<close> that the state is there (its \<open>mode\<close> is a
  non-empty literal); \<open>setTrack(prev => prev ? {...prev, ...} : null)\<close> updates the two
  fields of the previous track, or keeps \<open>null\<close>.
\<close>

definition onmessage :: "ws_state \<Rightarrow> WSMessage \<Rightarrow> ws_state" where
  "onmessage s message =
     (case msg_type message of
        T_init \<Rightarrow>
          (let s1 = (case msg_track message of Some t \<Rightarrow> s\<lparr>track := Some t\<rparr> | None \<Rightarrow> s)
           in (case msg_state message of
                 Some st \<Rightarrow> s1\<lparr>mode := ds_mode st\<rparr>
               | None \<Rightarrow> s1))
      | T_track_update \<Rightarrow>
          (case msg_track message of Some t \<Rightarrow> s\<lparr>track := Some t\<rparr> | None \<Rightarrow> s)
      | T_progress_update \<Rightarrow>
          s\<lparr>track :=
              (case track s of
                 Some prev \<Rightarrow>
                   Some (prev\<lparr>progress_ms := nullish (msg_progress_ms message) (progress_ms prev),
                               is_playing := nullish (msg_is_playing message) (is_playing prev)\<rparr>)
               | None \<Rightarrow> None)\<rparr>
      | T_mode_change \<Rightarrow>
          (case msg_mode message of Some m \<Rightarrow> s\<lparr>mode := m\<rparr> | None \<Rightarrow> s))"

text \<open>The messages of one connection, handled in the order of their arrival.\<close>

definition run :: "ws_state \<Rightarrow> WSMessage list \<Rightarrow> ws_state" where
  "run s ms = foldl onmessage s ms"

text \<open>Sample values: a track, and messages of each type.\<close>

definition song :: TrackInfo where
  "song = \<lparr>track_id = ''t1'', title = ''Song X'', artist = ''Artist Y'', album = ''Album Z'',
            album_art_url = None, album_art_colors = None, duration_ms = 200000,
            progress_ms = 0, is_playing = True, source = S_spotify, release_year = None,
            genre = None, lyrics = None, artist_image_url = None, artist_bio = None\<rparr>"

definition mk_msg :: "MsgType \<Rightarrow> WSMessage" where
  "mk_msg ty = \<lparr>msg_type = ty, msg_track = None, msg_state = None, msg_progress_ms = None,
                 msg_is_playing = None, msg_mode = None\<rparr>"

subsection \<open>The bound on the progress of the track\<close>

text \<open>\<open>0 \<le> progress_ms \<le> duration_ms\<close>, for a track and for the track of a state.\<close>

definition in_range :: "TrackInfo \<Rightarrow> bool" where
  "in_range t = (0 \<le> progress_ms t \<and> progress_ms t \<le> duration_ms t)"

definition state_in_range :: "ws_state \<Rightarrow> bool" where
  "state_in_range s = (case track s of None \<Rightarrow> True | Some t \<Rightarrow> in_range t)"

text \<open>
  A message is in range for a state when the track it carries (\<open>init\<close>, \<open>track_update\<close>)
  satisfies the bound, and the \<open>progress_ms\<close> it carries (\<open>progress_update\<close>) lies between 0
  and the duration of the current track. A list of messages is in range when each message
  is in range for the state it arrives in.
\<close>

definition msg_in_range :: "ws_state \<Rightarrow> WSMessage \<Rightarrow> bool" where
  "msg_in_range s m =
     (case msg_type m of
        T_init \<Rightarrow> (case msg_track m of None \<Rightarrow> True | Some t \<Rightarrow> in_range t)
      | T_track_update \<Rightarrow> (case msg_track m of None \<Rightarrow> True | Some t \<Rightarrow> in_range t)
      | T_progress_update \<Rightarrow>
          (case msg_progress_ms m of
             None \<Rightarrow> True
           | Some p \<Rightarrow> (case track s of None \<Rightarrow> True | Some t \<Rightarrow> 0 \<le> p \<and> p \<le> duration_ms t))
      | T_mode_change \<Rightarrow> True)"

fun msgs_in_range :: "ws_state \<Rightarrow> WSMessage list \<Rightarrow> bool" where
  "msgs_in_range s [] = True"
| "msgs_in_range s (m # ms) = (msg_in_range s m \<and> msgs_in_range (onmessage s m) ms)"

subsection \<open>The \<open>init\<close> message\<close>

definition init_msg :: "TrackInfo option \<Rightarrow> DisplayMode \<Rightarrow> WSMessage" where
  "init_msg t md =
     (mk_msg T_init)\<lparr>msg_track := t,
                     msg_state := Some \<lparr>ds_mode = md, ds_brightness = 100, ds_track = t\<rparr>\<rparr>"

subsection \<open>The progress bar (\<open>AlbumArtDisplay.tsx\<close>, \<open>MinimalDisplay.tsx\<close>)\<close>

text \<open>
  The division of JavaScript, on exact numbers. A zero divisor gives no finite number
  (\<open>Infinity\<close> or \<open>NaN\<close>): the model returns \<open>None\<close> there, so that a result \<open>Some q\<close> says
  that no division by zero was evaluated. The rounding of the floating-point operations
  is not modelled: \<open>/\<close> and \<open>*\<close> are those of the real numbers.
\<close>

definition js_div :: "real \<Rightarrow> real \<Rightarrow> real option" where
  "js_div a b = (if b = 0 then None else Some (a / b))"

text \<open>
  \<open>track.duration_ms > 0 ? (track.progress_ms / track.duration_ms) * 100 : 0\<close>, as it
  stands in \<open>AlbumArtDisplay\<close> and again in \<open>MinimalDisplay\<close>. The prop \<open>track\<close> is the
  argument \<open>trk\<close>.
\<close>

definition AlbumArtDisplay_progressPercent :: "TrackInfo \<Rightarrow> real option" where
  "AlbumArtDisplay_progressPercent trk =
     (if duration_ms trk > 0
      then map_option (\<lambda>q. q * 100)
             (js_div (real_of_int (progress_ms trk)) (real_of_int (duration_ms trk)))
      else Some 0)"

definition MinimalDisplay_progressPercent :: "TrackInfo \<Rightarrow> real option" where
  "MinimalDisplay_progressPercent trk =
     (if duration_ms trk > 0
      then map_option (\<lambda>q. q * 100)
             (js_div (real_of_int (progress_ms trk)) (real_of_int (duration_ms trk)))
      else Some 0)"

subsection \<open>The application (\<open>frontend/src/App.tsx\<close>)\<close>

text \<open>
  What \<open>renderDisplay\<close> returns: the component and its props (the callback \<open>onAuth\<close> of
  \<open>IdleScreen\<close> is left out).
\<close>

datatype Component =
    IdleScreen bool bool string
  | AlbumArtDisplay TrackInfo
  | LyricsDisplay TrackInfo
  | ArtistInfoDisplay TrackInfo
  | VisualizerDisplay TrackInfo
  | MinimalDisplay TrackInfo

text \<open>
  The state of \<open>App\<close>: the values of the hook (\<open>isConnected\<close>, \<open>track\<close>, \<open>mode\<close>) and the
  four \<open>useState\<close> cells of the component.
\<close>

record app_state =
  ws :: ws_state
  isAuthenticated :: bool
  isDemoMode :: bool
  activeSource :: string
  currentMode :: DisplayMode

text \<open>
  \<open>renderDisplay\<close>. The \<open>default\<close> branch of the \<open>switch\<close> has no value of \<open>DisplayMode\<close>
  left to match.
\<close>

definition renderDisplay :: "app_state \<Rightarrow> Component" where
  "renderDisplay a =
     (case track (ws a) of
        None \<Rightarrow> IdleScreen (isConnected (ws a)) (isAuthenticated a \<or> isDemoMode a) (activeSource a)
      | Some t \<Rightarrow>
          (case currentMode a of
             M_album_art \<Rightarrow> AlbumArtDisplay t
           | M_lyrics \<Rightarrow> LyricsDisplay t
           | M_artist_info \<Rightarrow> ArtistInfoDisplay t
           | M_visualizer \<Rightarrow> VisualizerDisplay t
           | M_minimal \<Rightarrow> MinimalDisplay t))"

text \<open>
  Operations of JavaScript that \<open>handleKeyDown\<close> uses. \<open>indexOf\<close> is the first index of
  the element, or \<open>-1\<close>; \<open>a % b\<close> has the sign of \<open>a\<close> (the divisor is the length of
  \<open>modes\<close>, never zero); \<open>xs[i]\<close> is \<open>undefined\<close> (\<open>None\<close>) outside the array.
\<close>

fun indexOf :: "'a list \<Rightarrow> 'a \<Rightarrow> int" where
  "indexOf [] x = - 1"
| "indexOf (y # ys) x =
     (if y = x then 0 else (let i = indexOf ys x in if i < 0 then - 1 else i + 1))"

definition js_rem :: "int \<Rightarrow> int \<Rightarrow> int" where
  "js_rem a b = sgn a * (\<bar>a\<bar> mod \<bar>b\<bar>)"

definition js_index :: "'a list \<Rightarrow> int \<Rightarrow> 'a option" where
  "js_index xs i = (if 0 \<le> i \<and> i < int (length xs) then Some (xs ! nat i) else None)"

definition modes :: "DisplayMode list" where
  "modes = [M_album_art, M_lyrics, M_artist_info, M_visualizer, M_minimal]"

text \<open>
  \<open>handleModeChange\<close> sets \<open>currentMode\<close> and posts the mode to the server; the requests
  made are collected in a list of URLs.
\<close>

definition handleModeChange :: "app_state \<Rightarrow> DisplayMode \<Rightarrow> app_state \<times> string list" where
  "handleModeChange a newMode =
     (a\<lparr>currentMode := newMode\<rparr>, [''/api/display/mode/'' @ DisplayMode_str newMode])"

text \<open>
  \<open>handleKeyDown\<close>, on the key \<open>e.key\<close>. The element read from \<open>modes\<close> is always there
  (lemma \<open>modes_index_defined\<close> below), so the branch for \<open>undefined\<close> is never taken.
\<close>

definition handleKeyDown :: "app_state \<Rightarrow> string \<Rightarrow> app_state \<times> string list" where
  "handleKeyDown a key =
     (let currentIndex = indexOf modes (currentMode a) in
      if key = ''ArrowRight'' then
        (case js_index modes (js_rem (currentIndex + 1) (int (length modes))) of
           Some nextMode \<Rightarrow> handleModeChange a nextMode
         | None \<Rightarrow> (a, []))
      else if key = ''ArrowLeft'' then
        (case js_index modes (js_rem (currentIndex - 1 + int (length modes)) (int (length modes))) of
           Some prevMode \<Rightarrow> handleModeChange a prevMode
         | None \<Rightarrow> (a, []))
      else if key = '' '' then (a, [''/api/control/play-pause''])
      else (a, []))"

definition app0 :: app_state where
  "app0 = \<lparr>ws = initial_state\<lparr>track := Some song\<rparr>, isAuthenticated = False, isDemoMode = False,
            activeSource = ''demo'', currentMode = M_album_art\<rparr>"

subsection \<open>Colour extraction (\<open>frontend/src/hooks/useColorExtraction.ts\<close>)\<close>







text \<open>
  \<open>Math.round(p / 32) * 32\<close> for a byte \<open>p\<close>: \<open>p / 32\<close> is exact, and \<open>Math.round\<close>
  takes a half upwards, so the result is \<open>\<lfloor>(p + 16) / 32\<rfloor> * 32\<close>.
\<close>

definition quantize :: "8 word \<Rightarrow> nat" where
  "quantize p = ((unat p + 16) div 32) * 32"





























subsection \<open>The Change Detector\<close>

text \<open>
  Modelled from the spec: the Change Detector and the \<open>TrackState\<close> it compares belong to
  the backend, which is not among the sources. The definitions of this section follow
  sections 3 and 4.3 of the specification.

  \<open>source (enum: spotify | lastfm | audio | demo | none)\<close>.
\<close>

datatype Source = Spotify | Lastfm | Audio | Demo | NoSource

text \<open>
  Modelled from the spec: \<open>TrackState\<close>, with the attributes of section 3 (the enrichment
  fields are optional).
\<close>

record TrackState =
  ts_title :: string
  ts_artist :: string
  ts_album :: string
  ts_album_art_url :: "string option"
  ts_duration_ms :: nat
  ts_progress_ms :: int
  ts_is_playing :: bool
  ts_source :: Source
  ts_genre :: "string list option"
  ts_lyrics :: "string option"
  ts_artist_image_url :: "string option"
  ts_artist_bio :: "string option"
  ts_release_year :: "int option"

text \<open>
  Modelled from the spec: the signature, "derived from (title, artist, album) or a
  provider-native id"; the model takes the first.
\<close>

definition signature :: "TrackState \<Rightarrow> string \<times> string \<times> string" where
  "signature t = (ts_title t, ts_artist t, ts_album t)"

text \<open>Modelled from the spec: the three classes that \<open>classify\<close> returns.\<close>

datatype Classification = NoOp | ProgressOnly | TrackChanged

text \<open>
  Modelled from the spec: a state or snapshot is present when it is there and its source
  is not \<open>none\<close> (the canonical state is torn down to "none"; a provider that has nothing
  to say is \<open>Unavailable\<close>, here \<open>None\<close>).
\<close>

definition present :: "TrackState option \<Rightarrow> bool" where
  "present x = (case x of None \<Rightarrow> False | Some t \<Rightarrow> ts_source t \<noteq> NoSource)"

text \<open>Modelled from the spec: "signatures differ" and "signatures match".\<close>

definition signatures_differ :: "TrackState option \<Rightarrow> TrackState option \<Rightarrow> bool" where
  "signatures_differ previous nxt =
     (case previous of
        None \<Rightarrow> False
      | Some a \<Rightarrow> (case nxt of None \<Rightarrow> False | Some b \<Rightarrow> signature a \<noteq> signature b))"

definition signatures_match :: "TrackState option \<Rightarrow> TrackState option \<Rightarrow> bool" where
  "signatures_match previous nxt =
     (case previous of
        None \<Rightarrow> False
      | Some a \<Rightarrow> (case nxt of None \<Rightarrow> False | Some b \<Rightarrow> signature a = signature b))"

text \<open>
  Modelled from the spec: "only progress_ms/is_playing differ": the two differ, and they
  agree once the progress and the playing flag of the one are put into the other.
\<close>

definition only_progress_differs :: "TrackState option \<Rightarrow> TrackState option \<Rightarrow> bool" where
  "only_progress_differs previous nxt =
     (case previous of
        None \<Rightarrow> False
      | Some a \<Rightarrow>
          (case nxt of
             None \<Rightarrow> False
           | Some b \<Rightarrow>
               b \<noteq> a \<and> b = a\<lparr>ts_progress_ms := ts_progress_ms b, ts_is_playing := ts_is_playing b\<rparr>))"


text \<open>
  Modelled from the spec: the snapshot of the scenario of section 8 (Song X by Artist Y,
  progress 0 of 200000).
\<close>

definition song_x :: TrackState where
  "song_x = \<lparr>ts_title = ''Song X'', ts_artist = ''Artist Y'', ts_album = ''Album Z'',
              ts_album_art_url = None, ts_duration_ms = 200000, ts_progress_ms = 0,
              ts_is_playing = True, ts_source = Spotify, ts_genre = None, ts_lyrics = None,
              ts_artist_image_url = None, ts_artist_bio = None, ts_release_year = None\<rparr>"

section \<open>Properties\<close>

subsection \<open>Frame properties of the message handler\<close>

lemma onmessage_progress_Some:
  "track s = Some t \<Longrightarrow> msg_type m = T_progress_update \<Longrightarrow>
   onmessage s m =
     s\<lparr>track := Some (t\<lparr>progress_ms := nullish (msg_progress_ms m) (progress_ms t),
                          is_playing := nullish (msg_is_playing m) (is_playing t)\<rparr>)\<rparr>"
  by (simp add: onmessage_def)

lemma onmessage_progress_None:
  "track s = None \<Longrightarrow> msg_type m = T_progress_update \<Longrightarrow> onmessage s m = s"
  by (simp add: onmessage_def)

lemma onmessage_mode_change:
  "msg_type m = T_mode_change \<Longrightarrow>
   onmessage s m = (case msg_mode m of Some md \<Rightarrow> s\<lparr>mode := md\<rparr> | None \<Rightarrow> s)"
  by (simp add: onmessage_def)

text \<open>
  C3. When the current track is not null, a \<open>progress_update\<close> message changes at most the
  fields \<open>progress_ms\<close> and \<open>is_playing\<close> of the track: every other field of the track, the
  display mode and the connection flag are as before. A \<open>mode_change\<close> message leaves the
  track (and the connection flag) as it was, so it changes at most the mode.
\<close>

theorem progress_update_frame:
  "(track s = Some t \<and> msg_type m = T_progress_update \<longrightarrow>
      (\<exists>t'. track (onmessage s m) = Some t' \<and>
            t'\<lparr>progress_ms := progress_ms t, is_playing := is_playing t\<rparr> = t \<and>
            track_id t' = track_id t \<and> title t' = title t \<and> artist t' = artist t \<and>
            album t' = album t \<and> album_art_url t' = album_art_url t \<and>
            album_art_colors t' = album_art_colors t \<and> duration_ms t' = duration_ms t \<and>
            source t' = source t \<and> release_year t' = release_year t \<and>
            genre t' = genre t \<and> lyrics t' = lyrics t \<and>
            artist_image_url t' = artist_image_url t \<and> artist_bio t' = artist_bio t) \<and>
      mode (onmessage s m) = mode s \<and> isConnected (onmessage s m) = isConnected s) \<and>
   (msg_type m = T_mode_change \<longrightarrow>
      track (onmessage s m) = track s \<and> isConnected (onmessage s m) = isConnected s \<and>
      onmessage s m = s\<lparr>mode := mode (onmessage s m)\<rparr>)"
proof (intro conjI impI)
  assume a: "track s = Some t \<and> msg_type m = T_progress_update"
  then have eq: "onmessage s m =
     s\<lparr>track := Some (t\<lparr>progress_ms := nullish (msg_progress_ms m) (progress_ms t),
                          is_playing := nullish (msg_is_playing m) (is_playing t)\<rparr>)\<rparr>"
    by (simp add: onmessage_progress_Some)
  show "\<exists>t'. track (onmessage s m) = Some t' \<and>
            t'\<lparr>progress_ms := progress_ms t, is_playing := is_playing t\<rparr> = t \<and>
            track_id t' = track_id t \<and> title t' = title t \<and> artist t' = artist t \<and>
            album t' = album t \<and> album_art_url t' = album_art_url t \<and>
            album_art_colors t' = album_art_colors t \<and> duration_ms t' = duration_ms t \<and>
            source t' = source t \<and> release_year t' = release_year t \<and>
            genre t' = genre t \<and> lyrics t' = lyrics t \<and>
            artist_image_url t' = artist_image_url t \<and> artist_bio t' = artist_bio t"
    by (simp add: eq)
  show "mode (onmessage s m) = mode s" by (simp add: eq)
  show "isConnected (onmessage s m) = isConnected s" by (simp add: eq)
next
  assume b: "msg_type m = T_mode_change"
  show "track (onmessage s m) = track s"
    by (simp add: onmessage_mode_change [OF b] split: option.split)
  show "isConnected (onmessage s m) = isConnected s"
    by (simp add: onmessage_mode_change [OF b] split: option.split)
  show "onmessage s m = s\<lparr>mode := mode (onmessage s m)\<rparr>"
    by (simp add: onmessage_mode_change [OF b] split: option.split)
qed

theorem progress_update_frame_witness:
  "(\<exists>t'. track (onmessage (initial_state\<lparr>track := Some song\<rparr>)
                  ((mk_msg T_progress_update)\<lparr>msg_progress_ms := Some 4000\<rparr>)) = Some t' \<and>
         progress_ms t' = 4000 \<and> title t' = ''Song X'' \<and> duration_ms t' = 200000) \<and>
   mode (onmessage (initial_state\<lparr>track := Some song\<rparr>)
           ((mk_msg T_progress_update)\<lparr>msg_progress_ms := Some 4000\<rparr>)) = M_album_art \<and>
   track (onmessage (initial_state\<lparr>track := Some song\<rparr>)
           ((mk_msg T_mode_change)\<lparr>msg_mode := Some M_lyrics\<rparr>)) = Some song \<and>
   mode (onmessage (initial_state\<lparr>track := Some song\<rparr>)
           ((mk_msg T_mode_change)\<lparr>msg_mode := Some M_lyrics\<rparr>)) = M_lyrics"
proof -
  let ?s = "initial_state\<lparr>track := Some song\<rparr>"
  let ?p = "(mk_msg T_progress_update)\<lparr>msg_progress_ms := Some 4000\<rparr>"
  let ?c = "(mk_msg T_mode_change)\<lparr>msg_mode := Some M_lyrics\<rparr>"
  have s: "track ?s = Some song \<and> msg_type ?p = T_progress_update"
    by (simp add: mk_msg_def)
  have c: "msg_type ?c = T_mode_change"
    by (simp add: mk_msg_def)
  have v: "progress_ms (the (track (onmessage ?s ?p))) = 4000"
    by (simp add: onmessage_def mk_msg_def initial_state_def nullish_def)
  have md: "mode (onmessage ?s ?c) = M_lyrics"
    by (simp add: onmessage_def mk_msg_def initial_state_def)
  from progress_update_frame [of ?s song ?p] s
  obtain t' where t': "track (onmessage ?s ?p) = Some t'" "title t' = title song"
      "duration_ms t' = duration_ms song" and m: "mode (onmessage ?s ?p) = mode ?s"
    by blast
  from progress_update_frame [of ?s song ?c] c
  have tr: "track (onmessage ?s ?c) = track ?s" by blast
  from t' v have "progress_ms t' = 4000 \<and> title t' = ''Song X'' \<and> duration_ms t' = 200000"
    by (simp add: song_def)
  with t' m tr md show ?thesis
    by (simp add: initial_state_def)
qed

subsection \<open>Progress ticks without a track, and ticks that omit a field\<close>

text \<open>
  C8. A \<open>progress_update\<close> message received while the current track is null leaves the
  track null. When there is a track, a \<open>progress_update\<close> message that omits \<open>progress_ms\<close>
  keeps the track's \<open>progress_ms\<close>, and one that omits \<open>is_playing\<close> keeps the track's
  \<open>is_playing\<close>; a field that is present is taken from the message.
\<close>

theorem progress_update_null_and_omitted:
  "msg_type m = T_progress_update \<Longrightarrow>
   (track s = None \<longrightarrow> track (onmessage s m) = None) \<and>
   (\<forall>t. track s = Some t \<longrightarrow>
      (\<exists>t'. track (onmessage s m) = Some t' \<and>
            (msg_progress_ms m = None \<longrightarrow> progress_ms t' = progress_ms t) \<and>
            (msg_is_playing m = None \<longrightarrow> is_playing t' = is_playing t) \<and>
            (\<forall>p. msg_progress_ms m = Some p \<longrightarrow> progress_ms t' = p) \<and>
            (\<forall>b. msg_is_playing m = Some b \<longrightarrow> is_playing t' = b)))"
proof (intro conjI allI impI)
  assume ty: "msg_type m = T_progress_update" and n: "track s = None"
  show "track (onmessage s m) = None"
    using n by (simp add: onmessage_progress_None [OF n ty])
next
  fix t
  assume ty: "msg_type m = T_progress_update" and tr: "track s = Some t"
  show "\<exists>t'. track (onmessage s m) = Some t' \<and>
            (msg_progress_ms m = None \<longrightarrow> progress_ms t' = progress_ms t) \<and>
            (msg_is_playing m = None \<longrightarrow> is_playing t' = is_playing t) \<and>
            (\<forall>p. msg_progress_ms m = Some p \<longrightarrow> progress_ms t' = p) \<and>
            (\<forall>b. msg_is_playing m = Some b \<longrightarrow> is_playing t' = b)"
    by (simp add: onmessage_progress_Some [OF tr ty] nullish_def)
qed

theorem progress_update_null_and_omitted_witness:
  "track (onmessage initial_state ((mk_msg T_progress_update)\<lparr>msg_progress_ms := Some 4000\<rparr>))
     = None \<and>
   (\<exists>t'. track (onmessage (initial_state\<lparr>track := Some song\<rparr>)
                  ((mk_msg T_progress_update)\<lparr>msg_is_playing := Some False\<rparr>)) = Some t' \<and>
         progress_ms t' = 0 \<and> is_playing t' = False)"
proof -
  let ?p = "(mk_msg T_progress_update)\<lparr>msg_progress_ms := Some 4000\<rparr>"
  let ?q = "(mk_msg T_progress_update)\<lparr>msg_is_playing := Some False\<rparr>"
  let ?s = "initial_state\<lparr>track := Some song\<rparr>"
  have ty: "msg_type ?p = T_progress_update" "msg_type ?q = T_progress_update"
    by (simp_all add: mk_msg_def)
  have n: "track initial_state = None"
    by (simp add: initial_state_def)
  have sm: "track ?s = Some song"
    by simp
  have om: "msg_progress_ms ?q = None" "msg_is_playing ?q = Some False"
    by (simp_all add: mk_msg_def)
  from progress_update_null_and_omitted [OF ty(1), of initial_state] n
  have a: "track (onmessage initial_state ?p) = None" by blast
  from progress_update_null_and_omitted [OF ty(2), of ?s] sm om
  obtain t' where "track (onmessage ?s ?q) = Some t'" "progress_ms t' = progress_ms song"
      "is_playing t' = False"
    by blast
  then have "\<exists>t'. track (onmessage ?s ?q) = Some t' \<and> progress_ms t' = 0 \<and> is_playing t' = False"
    by (simp add: song_def)
  with a show ?thesis by blast
qed

subsection \<open>The bound on the progress of the track\<close>

lemma onmessage_in_range:
  "state_in_range s \<Longrightarrow> msg_in_range s m \<Longrightarrow> state_in_range (onmessage s m)"
  by (cases "msg_type m")
     (auto simp: state_in_range_def msg_in_range_def onmessage_def in_range_def nullish_def Let_def
           split: option.splits)

lemma run_in_range:
  "state_in_range s \<Longrightarrow> msgs_in_range s ms \<Longrightarrow> state_in_range (run s ms)"
proof (induction ms arbitrary: s)
  case Nil
  then show ?case by (simp add: run_def)
next
  case (Cons m ms)
  from Cons.prems have "state_in_range (onmessage s m)" "msgs_in_range (onmessage s m) ms"
    by (simp_all add: onmessage_in_range)
  then have "state_in_range (run (onmessage s m) ms)"
    by (rule Cons.IH)
  then show ?case by (simp add: run_def)
qed

lemma msgs_in_range_take: "msgs_in_range s ms \<Longrightarrow> msgs_in_range s (take n ms)"
proof (induction ms arbitrary: s n)
  case Nil
  then show ?case by simp
next
  case (Cons m ms)
  then show ?case by (cases n) simp_all
qed

text \<open>
  C1, as the specification states it, fails on the client: the handler stores the
  \<open>progress_ms\<close> of a \<open>progress_update\<close> message as it is, without clamping. After a
  \<open>track_update\<close> with a track of 200000 ms at progress 0 and a \<open>progress_update\<close> with
  \<open>progress_ms = 500000\<close>, the track state has progress 500000 over a duration of 200000.
\<close>

theorem progress_bound_counterexample:
  "\<not> state_in_range
       (run initial_state
          [(mk_msg T_track_update)\<lparr>msg_track := Some song\<rparr>,
           (mk_msg T_progress_update)\<lparr>msg_progress_ms := Some 500000\<rparr>])"
  by (simp add: run_def onmessage_def mk_msg_def initial_state_def song_def nullish_def
        state_in_range_def in_range_def)

text \<open>
  C1, amended. The client keeps the bound when what it receives is within the bound: from
  a state whose track satisfies \<open>0 \<le> progress_ms \<le> duration_ms\<close>, and along a list of
  messages each in range for the state it arrives in, the state after the whole list, and
  the state after every prefix of it, satisfies the bound.
\<close>

theorem progress_bound_preserved:
  "state_in_range s \<Longrightarrow> msgs_in_range s ms \<Longrightarrow>
   state_in_range (run s ms) \<and> (\<forall>n. state_in_range (run s (take n ms)))"
  by (simp add: run_in_range msgs_in_range_take)

theorem progress_bound_preserved_witness:
  "state_in_range initial_state \<and>
   msgs_in_range initial_state
     [(mk_msg T_track_update)\<lparr>msg_track := Some song\<rparr>,
      (mk_msg T_progress_update)\<lparr>msg_progress_ms := Some 4000\<rparr>] \<and>
   state_in_range
     (run initial_state
        [(mk_msg T_track_update)\<lparr>msg_track := Some song\<rparr>,
         (mk_msg T_progress_update)\<lparr>msg_progress_ms := Some 4000\<rparr>]) \<and>
   progress_ms (the (track
     (run initial_state
        [(mk_msg T_track_update)\<lparr>msg_track := Some song\<rparr>,
         (mk_msg T_progress_update)\<lparr>msg_progress_ms := Some 4000\<rparr>]))) = 4000"
proof -
  let ?ms = "[(mk_msg T_track_update)\<lparr>msg_track := Some song\<rparr>,
              (mk_msg T_progress_update)\<lparr>msg_progress_ms := Some 4000\<rparr>]"
  have a: "state_in_range initial_state"
    by (simp add: state_in_range_def initial_state_def)
  have b: "msgs_in_range initial_state ?ms"
    by (simp add: msg_in_range_def onmessage_def mk_msg_def initial_state_def song_def in_range_def)
  have c: "progress_ms (the (track (run initial_state ?ms))) = 4000"
    by (simp add: run_def onmessage_def mk_msg_def initial_state_def song_def nullish_def)
  from progress_bound_preserved [OF a b] have "state_in_range (run initial_state ?ms)"
    by blast
  with a b c show ?thesis by blast
qed

subsection \<open>The \<open>init\<close> message\<close>

text \<open>
  C4, as the specification states it, fails: \<open>if (message.track) setTrack(message.track)\<close>
  skips a null track, so an \<open>init\<close> message with \<open>track: null\<close> does not clear the track of a
  client that already shows one.
\<close>

theorem init_null_track_counterexample:
  "msg_track (init_msg None M_lyrics) = None \<and>
   track (onmessage (initial_state\<lparr>track := Some song\<rparr>) (init_msg None M_lyrics)) = Some song"
  by (simp add: init_msg_def mk_msg_def onmessage_def initial_state_def)

text \<open>
  C4, amended. An \<open>init\<close> message sets the track to the track it carries when that is not
  null and keeps the previous track when it is null; it sets the mode to \<open>state.mode\<close> when
  the message has a \<open>state\<close> and keeps the previous mode otherwise. For a client whose
  track is null (as it is when the page has just loaded) the track after \<open>init\<close> is the
  track of the message, null included.
\<close>

theorem init_sets_view:
  "msg_type m = T_init \<Longrightarrow>
   track (onmessage s m) = (case msg_track m of Some t \<Rightarrow> Some t | None \<Rightarrow> track s) \<and>
   mode (onmessage s m) = (case msg_state m of Some st \<Rightarrow> ds_mode st | None \<Rightarrow> mode s) \<and>
   isConnected (onmessage s m) = isConnected s \<and>
   (track s = None \<longrightarrow> track (onmessage s m) = msg_track m)"
  by (simp add: onmessage_def Let_def split: option.splits)

theorem init_sets_view_witness:
  "track (onmessage initial_state (init_msg (Some song) M_lyrics)) = Some song \<and>
   mode (onmessage initial_state (init_msg (Some song) M_lyrics)) = M_lyrics"
proof -
  have ty: "msg_type (init_msg (Some song) M_lyrics) = T_init"
    by (simp add: init_msg_def mk_msg_def)
  show ?thesis
    using init_sets_view [OF ty, of initial_state]
    by (simp add: init_msg_def mk_msg_def)
qed

subsection \<open>The values of \<open>source\<close>\<close>

text \<open>
  C5, as the specification states it, fails on the declared type: \<open>SourceType\<close> has the
  value \<open>'analog'\<close>, which is none of \<open>spotify\<close>, \<open>lastfm\<close>, \<open>audio\<close>, \<open>demo\<close>, \<open>none\<close>.
\<close>

theorem source_five_values_counterexample:
  "SourceType_str (source (song\<lparr>source := S_analog\<rparr>))
     \<notin> {''spotify'', ''lastfm'', ''audio'', ''demo'', ''none''}"
  by simp

text \<open>
  C5, amended. The \<open>source\<close> of every \<open>TrackInfo\<close> is exactly one of the three values
  \<open>spotify\<close>, \<open>analog\<close>, \<open>unknown\<close>: the literal of the source is one of the three, each of
  the three is the literal of some source, and different sources have different literals.
\<close>

theorem source_three_values:
  "SourceType_str (source (t::TrackInfo)) \<in> {''spotify'', ''analog'', ''unknown''} \<and>
   range SourceType_str = {''spotify'', ''analog'', ''unknown''} \<and>
   inj SourceType_str"
proof (intro conjI)
  show "SourceType_str (source t) \<in> {''spotify'', ''analog'', ''unknown''}"
    by (cases "source t") simp_all
  show "range SourceType_str = {''spotify'', ''analog'', ''unknown''}"
  proof
    show "range SourceType_str \<subseteq> {''spotify'', ''analog'', ''unknown''}"
    proof
      fix x assume "x \<in> range SourceType_str"
      then obtain y where "x = SourceType_str y" by blast
      then show "x \<in> {''spotify'', ''analog'', ''unknown''}" by (cases y) simp_all
    qed
    have "SourceType_str S_spotify \<in> range SourceType_str"
         "SourceType_str S_analog \<in> range SourceType_str"
         "SourceType_str S_unknown \<in> range SourceType_str"
      by (rule rangeI)+
    then show "{''spotify'', ''analog'', ''unknown''} \<subseteq> range SourceType_str"
      by simp
  qed
  show "inj SourceType_str"
  proof (rule injI)
    fix x y assume "SourceType_str x = SourceType_str y"
    then show "x = y" by (cases x; cases y) simp_all
  qed
qed

theorem source_three_values_witness:
  "SourceType_str (source song) = ''spotify'' \<and>
   SourceType_str (source song) \<in> {''spotify'', ''analog'', ''unknown''}"
  using source_three_values [of song] by (simp add: song_def)

subsection \<open>The progress bar (\<open>AlbumArtDisplay.tsx\<close>, \<open>MinimalDisplay.tsx\<close>)\<close>

text \<open>
  C6. In both components the progress fraction is \<open>(progress_ms / duration_ms) * 100\<close>
  when \<open>duration_ms > 0\<close> and 0 when \<open>duration_ms = 0\<close>, and for every track the result is a
  number: the division is never evaluated with a zero divisor.
\<close>

theorem progressPercent_guarded:
  "(0 < duration_ms t \<longrightarrow>
      AlbumArtDisplay_progressPercent t =
        Some (real_of_int (progress_ms t) / real_of_int (duration_ms t) * 100) \<and>
      MinimalDisplay_progressPercent t =
        Some (real_of_int (progress_ms t) / real_of_int (duration_ms t) * 100)) \<and>
   (duration_ms t = 0 \<longrightarrow>
      AlbumArtDisplay_progressPercent t = Some 0 \<and> MinimalDisplay_progressPercent t = Some 0) \<and>
   AlbumArtDisplay_progressPercent t \<noteq> None \<and> MinimalDisplay_progressPercent t \<noteq> None"
  by (simp add: AlbumArtDisplay_progressPercent_def MinimalDisplay_progressPercent_def js_div_def)

theorem progressPercent_guarded_witness:
  "AlbumArtDisplay_progressPercent (song\<lparr>progress_ms := 50000\<rparr>) = Some 25 \<and>
   MinimalDisplay_progressPercent (song\<lparr>progress_ms := 50000\<rparr>) = Some 25 \<and>
   AlbumArtDisplay_progressPercent (song\<lparr>duration_ms := 0\<rparr>) = Some 0 \<and>
   MinimalDisplay_progressPercent (song\<lparr>duration_ms := 0\<rparr>) = Some 0"
proof -
  have a: "0 < duration_ms (song\<lparr>progress_ms := 50000\<rparr>)"
    by (simp add: song_def)
  have b: "duration_ms (song\<lparr>duration_ms := 0\<rparr>) = 0"
    by simp
  from progressPercent_guarded [of "song\<lparr>progress_ms := 50000\<rparr>"] a
  have "AlbumArtDisplay_progressPercent (song\<lparr>progress_ms := 50000\<rparr>) = Some 25 \<and>
        MinimalDisplay_progressPercent (song\<lparr>progress_ms := 50000\<rparr>) = Some 25"
    by (simp add: song_def)
  moreover from progressPercent_guarded [of "song\<lparr>duration_ms := 0\<rparr>"] b
  have "AlbumArtDisplay_progressPercent (song\<lparr>duration_ms := 0\<rparr>) = Some 0 \<and>
        MinimalDisplay_progressPercent (song\<lparr>duration_ms := 0\<rparr>) = Some 0"
    by simp
  ultimately show ?thesis by simp
qed

subsection \<open>The application (\<open>frontend/src/App.tsx\<close>)\<close>

lemma modes_index_defined:
  "js_index modes (js_rem (indexOf modes m + 1) (int (length modes))) \<noteq> None \<and>
   js_index modes (js_rem (indexOf modes m - 1 + int (length modes)) (int (length modes))) \<noteq> None"
  by (cases m) (simp_all add: modes_def js_index_def js_rem_def)

lemma key_right:
  "currentMode (fst (handleKeyDown a ''ArrowRight'')) =
     (case currentMode a of
        M_album_art \<Rightarrow> M_lyrics | M_lyrics \<Rightarrow> M_artist_info | M_artist_info \<Rightarrow> M_visualizer
      | M_visualizer \<Rightarrow> M_minimal | M_minimal \<Rightarrow> M_album_art)"
  by (cases "currentMode a")
     (simp_all add: handleKeyDown_def handleModeChange_def modes_def js_index_def js_rem_def)

lemma key_left:
  "currentMode (fst (handleKeyDown a ''ArrowLeft'')) =
     (case currentMode a of
        M_album_art \<Rightarrow> M_minimal | M_lyrics \<Rightarrow> M_album_art | M_artist_info \<Rightarrow> M_lyrics
      | M_visualizer \<Rightarrow> M_artist_info | M_minimal \<Rightarrow> M_visualizer)"
  by (cases "currentMode a")
     (simp_all add: handleKeyDown_def handleModeChange_def modes_def js_index_def js_rem_def)

text \<open>
  C7. \<open>DisplayMode\<close> has exactly the five values \<open>album_art\<close>, \<open>lyrics\<close>, \<open>artist_info\<close>,
  \<open>visualizer\<close>, \<open>minimal\<close> (five different literals), and with a track that is not null
  \<open>renderDisplay\<close> returns, for each of the five modes, the component of that mode on that
  track.
\<close>

theorem renderDisplay_by_mode:
  "(UNIV :: DisplayMode set) = {M_album_art, M_lyrics, M_artist_info, M_visualizer, M_minimal} \<and>
   map DisplayMode_str [M_album_art, M_lyrics, M_artist_info, M_visualizer, M_minimal] =
     [''album_art'', ''lyrics'', ''artist_info'', ''visualizer'', ''minimal''] \<and>
   inj DisplayMode_str \<and>
   (track (ws a) = Some t \<longrightarrow>
      (currentMode a = M_album_art \<longrightarrow> renderDisplay a = AlbumArtDisplay t) \<and>
      (currentMode a = M_lyrics \<longrightarrow> renderDisplay a = LyricsDisplay t) \<and>
      (currentMode a = M_artist_info \<longrightarrow> renderDisplay a = ArtistInfoDisplay t) \<and>
      (currentMode a = M_visualizer \<longrightarrow> renderDisplay a = VisualizerDisplay t) \<and>
      (currentMode a = M_minimal \<longrightarrow> renderDisplay a = MinimalDisplay t))"
proof (intro conjI)
  show "(UNIV :: DisplayMode set) = {M_album_art, M_lyrics, M_artist_info, M_visualizer, M_minimal}"
  proof
    show "UNIV \<subseteq> {M_album_art, M_lyrics, M_artist_info, M_visualizer, M_minimal}"
    proof
      fix x :: DisplayMode
      show "x \<in> {M_album_art, M_lyrics, M_artist_info, M_visualizer, M_minimal}"
        by (cases x) simp_all
    qed
  qed simp
  show "map DisplayMode_str [M_album_art, M_lyrics, M_artist_info, M_visualizer, M_minimal] =
     [''album_art'', ''lyrics'', ''artist_info'', ''visualizer'', ''minimal'']"
    by simp
  show "inj DisplayMode_str"
  proof (rule injI)
    fix x y assume "DisplayMode_str x = DisplayMode_str y"
    then show "x = y" by (cases x; cases y) simp_all
  qed
  show "track (ws a) = Some t \<longrightarrow>
      (currentMode a = M_album_art \<longrightarrow> renderDisplay a = AlbumArtDisplay t) \<and>
      (currentMode a = M_lyrics \<longrightarrow> renderDisplay a = LyricsDisplay t) \<and>
      (currentMode a = M_artist_info \<longrightarrow> renderDisplay a = ArtistInfoDisplay t) \<and>
      (currentMode a = M_visualizer \<longrightarrow> renderDisplay a = VisualizerDisplay t) \<and>
      (currentMode a = M_minimal \<longrightarrow> renderDisplay a = MinimalDisplay t)"
    by (simp add: renderDisplay_def)
qed

theorem renderDisplay_by_mode_witness:
  "renderDisplay app0 = AlbumArtDisplay song \<and>
   renderDisplay (app0\<lparr>currentMode := M_lyrics\<rparr>) = LyricsDisplay song \<and>
   renderDisplay (app0\<lparr>currentMode := M_artist_info\<rparr>) = ArtistInfoDisplay song \<and>
   renderDisplay (app0\<lparr>currentMode := M_visualizer\<rparr>) = VisualizerDisplay song \<and>
   renderDisplay (app0\<lparr>currentMode := M_minimal\<rparr>) = MinimalDisplay song"
proof -
  have t: "track (ws (app0\<lparr>currentMode := m\<rparr>)) = Some song" for m
    by (simp add: app0_def)
  have t0: "track (ws app0) = Some song" "currentMode app0 = M_album_art"
    by (simp_all add: app0_def)
  from renderDisplay_by_mode [of app0 song] t0
  have "renderDisplay app0 = AlbumArtDisplay song" by blast
  moreover from renderDisplay_by_mode [of "app0\<lparr>currentMode := M_lyrics\<rparr>" song] t
  have "renderDisplay (app0\<lparr>currentMode := M_lyrics\<rparr>) = LyricsDisplay song" by simp
  moreover from renderDisplay_by_mode [of "app0\<lparr>currentMode := M_artist_info\<rparr>" song] t
  have "renderDisplay (app0\<lparr>currentMode := M_artist_info\<rparr>) = ArtistInfoDisplay song" by simp
  moreover from renderDisplay_by_mode [of "app0\<lparr>currentMode := M_visualizer\<rparr>" song] t
  have "renderDisplay (app0\<lparr>currentMode := M_visualizer\<rparr>) = VisualizerDisplay song" by simp
  moreover from renderDisplay_by_mode [of "app0\<lparr>currentMode := M_minimal\<rparr>" song] t
  have "renderDisplay (app0\<lparr>currentMode := M_minimal\<rparr>) = MinimalDisplay song" by simp
  ultimately show ?thesis by blast
qed

text \<open>
  C9. For every display mode, \<open>ArrowRight\<close> takes the mode at index \<open>i\<close> of the list of
  modes to the mode at index \<open>(i + 1) mod 5\<close> and \<open>ArrowLeft\<close> to the mode at index
  \<open>(i - 1 + 5) mod 5\<close>; \<open>ArrowRight\<close> followed by \<open>ArrowLeft\<close> gives the original mode back,
  and so does \<open>ArrowLeft\<close> followed by \<open>ArrowRight\<close>.
\<close>

theorem arrow_keys_inverse:
  "currentMode (fst (handleKeyDown (fst (handleKeyDown a ''ArrowRight'')) ''ArrowLeft''))
     = currentMode a \<and>
   currentMode (fst (handleKeyDown (fst (handleKeyDown a ''ArrowLeft'')) ''ArrowRight''))
     = currentMode a \<and>
   Some (currentMode (fst (handleKeyDown a ''ArrowRight'')))
     = js_index modes ((indexOf modes (currentMode a) + 1) mod 5) \<and>
   Some (currentMode (fst (handleKeyDown a ''ArrowLeft'')))
     = js_index modes ((indexOf modes (currentMode a) - 1 + 5) mod 5) \<and>
   js_index modes (indexOf modes (currentMode a)) = Some (currentMode a)"
proof (intro conjI)
  show "currentMode (fst (handleKeyDown (fst (handleKeyDown a ''ArrowRight'')) ''ArrowLeft''))
     = currentMode a"
    by (cases "currentMode a") (simp_all add: key_right key_left)
  show "currentMode (fst (handleKeyDown (fst (handleKeyDown a ''ArrowLeft'')) ''ArrowRight''))
     = currentMode a"
    by (cases "currentMode a") (simp_all add: key_right key_left)
  show "Some (currentMode (fst (handleKeyDown a ''ArrowRight'')))
     = js_index modes ((indexOf modes (currentMode a) + 1) mod 5)"
    by (cases "currentMode a") (simp_all add: key_right modes_def js_index_def)
  show "Some (currentMode (fst (handleKeyDown a ''ArrowLeft'')))
     = js_index modes ((indexOf modes (currentMode a) - 1 + 5) mod 5)"
    by (cases "currentMode a") (simp_all add: key_left modes_def js_index_def)
  show "js_index modes (indexOf modes (currentMode a)) = Some (currentMode a)"
    by (cases "currentMode a") (simp_all add: modes_def js_index_def)
qed

theorem arrow_keys_inverse_witness:
  "currentMode (fst (handleKeyDown app0 ''ArrowRight'')) = M_lyrics \<and>
   currentMode (fst (handleKeyDown (fst (handleKeyDown app0 ''ArrowRight'')) ''ArrowLeft''))
     = M_album_art \<and>
   currentMode (fst (handleKeyDown app0 ''ArrowLeft'')) = M_minimal \<and>
   currentMode (fst (handleKeyDown (fst (handleKeyDown app0 ''ArrowLeft'')) ''ArrowRight''))
     = M_album_art"
proof -
  have r: "currentMode (fst (handleKeyDown app0 ''ArrowRight'')) = M_lyrics"
    by (simp add: handleKeyDown_def handleModeChange_def modes_def js_index_def js_rem_def app0_def)
  have l: "currentMode (fst (handleKeyDown app0 ''ArrowLeft'')) = M_minimal"
    by (simp add: handleKeyDown_def handleModeChange_def modes_def js_index_def js_rem_def app0_def)
  have c: "currentMode app0 = M_album_art"
    by (simp add: app0_def)
  from arrow_keys_inverse [of app0] r l c show ?thesis
    by simp
qed

subsection \<open>Colour extraction (\<open>frontend/src/hooks/useColorExtraction.ts\<close>)\<close>

subsubsection \<open>Numbers and strings: writing a key and reading it back\<close>














lemma quantize_unique:
  "q mod 32 = 0 \<Longrightarrow> q \<le> unat c + 16 \<Longrightarrow> unat c < q + 16 \<Longrightarrow> q = quantize c"
proof -
  assume m: "q mod 32 = 0" and u: "q \<le> unat c + 16" and l: "unat c < q + 16"
  from m obtain k where k: "q = 32 * k" by (auto simp: mod_eq_0_iff_dvd)
  from u l k have "(unat c + 16) div 32 = k"
    by (intro div_nat_eqI) (simp_all add: mult.commute)
  with k show ?thesis by (simp add: quantize_def)
qed

subsubsection \<open>The counts, and their order\<close>

















subsubsection \<open>The palette\<close>














subsection \<open>The Change Detector\<close>





text \<open>
  Two snapshots of one signature with different durations: the pair is neither a track
  change, nor a change of progress only, nor unchanged.
\<close>

lemma uncovered_pair:
  "\<not> (signatures_differ (Some song_x) (Some (song_x\<lparr>ts_duration_ms := 180000\<rparr>)) \<or>
      (\<not> present (Some song_x) \<and> present (Some (song_x\<lparr>ts_duration_ms := 180000\<rparr>))) \<or>
      (\<not> present (Some (song_x\<lparr>ts_duration_ms := 180000\<rparr>)) \<and> present (Some song_x)))"
  "\<not> only_progress_differs (Some song_x) (Some (song_x\<lparr>ts_duration_ms := 180000\<rparr>))"
  "Some (song_x\<lparr>ts_duration_ms := 180000\<rparr>) \<noteq> Some song_x"
  by (simp_all add: signatures_differ_def signature_def present_def only_progress_differs_def
        song_x_def)

text \<open>
  Hence no total function into the three classes returns each class exactly on the
  condition that section 4.3 gives for it, whatever it returns on that pair.
\<close>

lemma no_total_classify:
  "\<not> (\<exists>f :: TrackState option \<Rightarrow> TrackState option \<Rightarrow> Classification.
        \<forall>previous nxt.
          (f previous nxt = TrackChanged \<longleftrightarrow>
             signatures_differ previous nxt \<or> (\<not> present previous \<and> present nxt)
               \<or> (\<not> present nxt \<and> present previous)) \<and>
          (f previous nxt = ProgressOnly \<longleftrightarrow>
             signatures_match previous nxt \<and> only_progress_differs previous nxt) \<and>
          (f previous nxt = NoOp \<longleftrightarrow> nxt = previous))"
proof
  let ?p = "Some song_x" and ?n = "Some (song_x\<lparr>ts_duration_ms := 180000\<rparr>)"
  assume "\<exists>f :: TrackState option \<Rightarrow> TrackState option \<Rightarrow> Classification.
        \<forall>previous nxt.
          (f previous nxt = TrackChanged \<longleftrightarrow>
             signatures_differ previous nxt \<or> (\<not> present previous \<and> present nxt)
               \<or> (\<not> present nxt \<and> present previous)) \<and>
          (f previous nxt = ProgressOnly \<longleftrightarrow>
             signatures_match previous nxt \<and> only_progress_differs previous nxt) \<and>
          (f previous nxt = NoOp \<longleftrightarrow> nxt = previous)"
  then obtain f :: "TrackState option \<Rightarrow> TrackState option \<Rightarrow> Classification" where
    f: "(f ?p ?n = TrackChanged \<longleftrightarrow>
             signatures_differ ?p ?n \<or> (\<not> present ?p \<and> present ?n) \<or> (\<not> present ?n \<and> present ?p))"
       "(f ?p ?n = ProgressOnly \<longleftrightarrow> signatures_match ?p ?n \<and> only_progress_differs ?p ?n)"
       "(f ?p ?n = NoOp \<longleftrightarrow> ?n = ?p)"
    by blast
  from f uncovered_pair have "f ?p ?n \<noteq> TrackChanged" "f ?p ?n \<noteq> ProgressOnly" "f ?p ?n \<noteq> NoOp"
    by blast+
  then show False by (cases "f ?p ?n") simp_all
qed




end
